theory Spec2Isabelle
  imports Main
begin

section \<open>The token revocation endpoint (src/server/auth/handlers/revoke.ts)\<close>

text \<open>
  The source file builds an Express router: a stack of middleware followed by one
  route handler. Each middleware either hands the request to the next one or ends the
  response. The model keeps that shape: a middleware is a function from the request, the
  response under construction and the state outside the request to a \<open>step\<close>; the
  router is the list of stages in the order the source installs them; running the router
  is a recursion over that list. Exceptions of the route handler are values
  (\<open>attempt\<close>), the \<open>try\<close>/\<open>catch\<close> is a case distinction over them.
\<close>

subsection \<open>JSON values and HTTP messages\<close>

datatype json_value =
  JString string
  | JNumber nat
  | JBool bool
  | JObject "(string \<times> json_value) list"

text \<open>The authenticated caller, as the authentication middleware attaches it.\<close>

record client_information =
  client_id :: string

text \<open>
  \<open>req.body\<close> after \<open>express.urlencoded({ extended: false })\<close>: the decoded
  form fields in the order of the payload.
\<close>

type_synonym form = "(string \<times> string) list"

record request =
  http_method :: string
  ip :: string
  body :: form
  client :: "client_information option"

record response =
  statusCode :: nat
  headers :: "string \<rightharpoonup> string"
  sent :: "json_value option"

text \<open>A fresh response: Node's default status, no header set, nothing sent.\<close>

definition fresh_response :: response where
  "fresh_response = \<lparr>statusCode = 200, headers = Map.empty, sent = None\<rparr>"

definition setHeader :: "response \<Rightarrow> string \<Rightarrow> string \<Rightarrow> response" where
  "setHeader res name v = res\<lparr>headers := (headers res)(name \<mapsto> v)\<rparr>"

definition status :: "response \<Rightarrow> nat \<Rightarrow> response" where
  "status res code = res\<lparr>statusCode := code\<rparr>"

definition json :: "response \<Rightarrow> json_value \<Rightarrow> response" where
  "json res v = res\<lparr>sent := Some v\<rparr>"

subsection \<open>The protocol errors (errors.ts)\<close>

text \<open>
  Modelled from the spec: \<open>errors.ts\<close> is not among the sources. The spec describes an
  \<open>OAuthError\<close> as a tagged failure with a machine-readable kind and a human-readable
  description that renders itself as \<open>{error, error_description}\<close>. The classes are
  the three the source file imports, the method-not-allowed error the spec names for the
  method gate, and any other subclass of \<open>OAuthError\<close>, which carries its own code.
  The spec gives the code of \<open>ServerError\<close> (\<open>server_error\<close>); the codes of the other
  named classes are the registered OAuth ones and occur in concrete instances only.
\<close>

datatype oauth_class =
  InvalidRequestError
  | ServerError
  | TooManyRequestsError
  | MethodNotAllowedError
  | OtherOAuthError string

datatype oauth_error = OAuthError oauth_class string

fun errorCode :: "oauth_class \<Rightarrow> string" where
  "errorCode InvalidRequestError = ''invalid_request''"
| "errorCode ServerError = ''server_error''"
| "errorCode TooManyRequestsError = ''too_many_requests''"
| "errorCode MethodNotAllowedError = ''method_not_allowed''"
| "errorCode (OtherOAuthError code) = code"

fun toResponseObject :: "oauth_error \<Rightarrow> json_value" where
  "toResponseObject (OAuthError c description) =
     JObject [(''error'', JString (errorCode c)), (''error_description'', JString description)]"

text \<open>
  What a \<open>throw\<close> can carry: a protocol error, or any other value (an \<open>Error\<close> of the
  provider, a \<open>TypeError\<close>, ...) with its details.
\<close>

datatype thrown = ThrownOAuth oauth_error | ThrownOther string

text \<open>\<open>error instanceof ServerError\<close>, for an \<open>error\<close> that is an \<open>OAuthError\<close>.\<close>

fun instanceof_ServerError :: "oauth_error \<Rightarrow> bool" where
  "instanceof_ServerError (OAuthError c description) = (c = ServerError)"

subsection \<open>The provider (provider.ts) and the imported modules\<close>

record revocation_request =
  token :: string
  token_type_hint :: "string option"

text \<open>
  How the promise returned by \<open>provider.revokeToken\<close> settles: it resolves (the declared
  type is \<open>void\<close>; whatever value it carries is discarded by \<open>await\<close>), it rejects or
  the call throws, or it never settles.
\<close>

datatype settle = Resolves "json_value option" | Rejects thrown | Pending

type_synonym clients_store = "string \<rightharpoonup> client_information"

text \<open>\<open>revokeToken\<close> is an optional method of \<open>OAuthServerProvider\<close>.\<close>

record OAuthServerProvider =
  clientsStore :: clients_store
  revokeToken :: "(client_information \<Rightarrow> revocation_request \<Rightarrow> settle) option"

datatype parse_result = ParseSuccess revocation_request | ParseFailure string

datatype auth_result = Authenticated client_information | Rejected nat json_value

text \<open>
  An options object of \<open>express-rate-limit\<close> is a JavaScript object: any key may be
  present, and a key that is present may hold \<open>undefined\<close>, a plain value, or a
  function. Two kinds of function occur: one the library calls to obtain a value from
  the request (\<open>Getter\<close>: a message, a cap, a key, a \<open>skip\<close> predicate), and one it
  calls to answer a rejected request (\<open>Handler\<close>: the \<open>handler\<close> option). What a
  handler does is what it does to the response and whether it calls \<open>next\<close>.
\<close>

datatype handler_step = CallsNext response | Ends response | Neither

datatype option_value =
  Undefined
  | Value json_value
  | Getter "request \<Rightarrow> json_value"
  | Handler "request \<Rightarrow> response \<Rightarrow> handler_step"

type_synonym options_object = "string \<rightharpoonup> option_value"

type_synonym hit_store = "string \<rightharpoonup> nat"

text \<open>
  Code that the source imports and that is not among the sources; these are parameters
  of the model.
  \<^item> \<open>safeParse\<close> is \<open>OAuthTokenRevocationRequestSchema.safeParse\<close> (shared/auth.ts):
    the parsed request, or the message of the validation error.
  \<^item> \<open>authenticate\<close> is the decision of \<open>authenticateClient\<close>
    (middleware/clientAuth.ts): from the clients store and the request, the resolved
    client, or the status and body of the error response it ends the request with.
  \<^item> \<open>over_limit\<close> is the bookkeeping of \<open>express-rate-limit\<close>: from the options
    it was created with, the request and its store, whether the request is over the cap,
    and the store afterwards. Which requests it skips, the key it counts under, the cap
    it reads from the options (\<open>limit\<close>, \<open>max\<close>, or its own default where the
    option is absent or \<open>undefined\<close>) and the window are the library's.
\<close>

record modules =
  safeParse :: "form \<Rightarrow> parse_result"
  authenticate :: "clients_store \<Rightarrow> request \<Rightarrow> auth_result"
  over_limit :: "options_object \<Rightarrow> request \<Rightarrow> hit_store \<Rightarrow> bool \<times> hit_store"

text \<open>
  Modelled from the spec: shared/auth.ts is not among the sources. The spec's
  \<open>RevocationRequest\<close> has a required string \<open>token\<close> and an optional, advisory
  \<open>token_type_hint\<close>; other fields are ignored. The text of the validation message is
  the validation library's; the model names the missing field.
\<close>

definition OAuthTokenRevocationRequestSchema :: "form \<Rightarrow> parse_result" where
  "OAuthTokenRevocationRequestSchema b =
     (case map_of b ''token'' of
        None \<Rightarrow> ParseFailure ''token: Required''
      | Some t \<Rightarrow> ParseSuccess \<lparr>token = t, token_type_hint = map_of b ''token_type_hint''\<rparr>)"

subsection \<open>The state outside one request\<close>

datatype stage_name =
  CorsStage | MethodGate | BodyParser | RateLimitStage | AuthStage | BusinessStage

text \<open>
  \<open>hits\<close> is the rate limiter's store: the requests counted so far, per key, in the
  current window. \<open>revoked\<close> records every invocation of \<open>provider.revokeToken\<close> by
  the route handler, with its arguments; \<open>entered\<close> records every stage that was
  entered, in order. \<open>provider_object\<close> is the provider object as it is now: the
  router's closure holds a reference to the object that was passed to
  \<open>revocationHandler\<close>, the object is shared with the rest of the program, and the
  route handler reads its \<open>revokeToken\<close> property anew for every request.
\<close>

record world =
  hits :: hit_store
  revoked :: "(client_information \<times> revocation_request) list"
  entered :: "stage_name list"
  provider_object :: OAuthServerProvider

datatype step =
  Continue request response world
  | Finish response world
  | Stall world

subsection \<open>The middleware the router installs\<close>

text \<open>
  \<open>cors()\<close> of the \<open>cors\<close> package with its default options: any origin is allowed;
  a preflight request (method \<open>OPTIONS\<close>) is answered by the middleware itself with
  status 204 and is not passed on, every other request is passed on with the header set.
  Only the origin header is modelled.
\<close>

definition cors :: "request \<Rightarrow> response \<Rightarrow> world \<Rightarrow> step" where
  "cors req res w =
     (let res' = setHeader res ''Access-Control-Allow-Origin'' ''*'' in
      if http_method req = ''OPTIONS'' then Finish (status res' 204) w
      else Continue req res' w)"

text \<open>
  Modelled from the spec: middleware/allowedMethods.ts is not among the sources. The
  method gate accepts the listed methods; any other method yields a method-not-allowed
  error response with status 405, before any further processing.
\<close>

definition allowedMethods :: "string list \<Rightarrow> request \<Rightarrow> response \<Rightarrow> world \<Rightarrow> step" where
  "allowedMethods ms req res w =
     (if http_method req \<in> set ms then Continue req res w
      else Finish
        (json (status res 405)
           (toResponseObject (OAuthError MethodNotAllowedError
              (''The method '' @ http_method req @ '' is not allowed for this endpoint''))))
        w)"

text \<open>
  \<open>express.urlencoded\<close> decodes the payload into \<open>req.body\<close>. The request record
  already carries the decoded fields, so the stage passes the request on unchanged.
\<close>

definition urlencoded :: "request \<Rightarrow> response \<Rightarrow> world \<Rightarrow> step" where
  "urlencoded req res w = Continue req res w"

text \<open>The \<open>rateLimit\<close> field of the handler's options: \<open>false\<close>, absent, or an object.\<close>

datatype rateLimitConfig =
  RateLimitFalse
  | RateLimitUndefined
  | RateLimitObject options_object

text \<open>The object literal of the source before the spread (lines 45 to 51).\<close>

definition rateLimit_defaults :: options_object where
  "rateLimit_defaults =
     [''windowMs'' \<mapsto> Value (JNumber (15 * 60 * 1000)),
      ''max'' \<mapsto> Value (JNumber 50),
      ''standardHeaders'' \<mapsto> Value (JBool True),
      ''legacyHeaders'' \<mapsto> Value (JBool False),
      ''message'' \<mapsto> Value (toResponseObject (OAuthError TooManyRequestsError
        ''You have exceeded the rate limit for token revocation requests''))]"

text \<open>
  \<open>{ ...defaults, ...rateLimitConfig }\<close> (line 52): every key of the caller's object,
  whatever it is and whatever it holds (\<open>undefined\<close> included), goes into the result
  and replaces a default of the same key.
\<close>

definition spread :: "options_object \<Rightarrow> options_object \<Rightarrow> options_object" where
  "spread d c = d ++ c"

text \<open>
  The spread applied to the \<open>rateLimit\<close> field as the caller passed it: spreading
  \<open>undefined\<close> (or \<open>false\<close>) adds no key.
\<close>

fun spread_config :: "options_object \<Rightarrow> rateLimitConfig \<Rightarrow> options_object" where
  "spread_config d RateLimitFalse = d"
| "spread_config d RateLimitUndefined = d"
| "spread_config d (RateLimitObject c) = spread d c"

text \<open>
  \<open>rateLimit(options)\<close> of \<open>express-rate-limit\<close>. The library leaves out the
  options that hold \<open>undefined\<close> and uses its own defaults for them
  (\<open>defined_option\<close>). A request that its bookkeeping does not find over the cap is
  passed on. A request over the cap is given to the \<open>handler\<close> option when there is
  one; otherwise the library answers it itself, with the status of the \<open>statusCode\<close>
  option (429 when there is none) and the \<open>message\<close> option (the library's own text
  when there is none; a function is called for the message), and does not pass it on.
  Values that the declared type of an option excludes count as no option. The
  rate-limit headers are not modelled.
\<close>

definition defined_option :: "options_object \<Rightarrow> string \<Rightarrow> option_value option" where
  "defined_option opts k = (case opts k of Some Undefined \<Rightarrow> None | v \<Rightarrow> v)"

definition rejection_status :: "options_object \<Rightarrow> nat" where
  "rejection_status opts =
     (case defined_option opts ''statusCode'' of
        Some (Value (JNumber n)) \<Rightarrow> n
      | _ \<Rightarrow> 429)"

definition rejection_message :: "options_object \<Rightarrow> request \<Rightarrow> json_value" where
  "rejection_message opts req =
     (case defined_option opts ''message'' of
        Some (Value v) \<Rightarrow> v
      | Some (Getter g) \<Rightarrow> g req
      | _ \<Rightarrow> JString ''Too many requests, please try again later.'')"

definition rateLimit ::
  "modules \<Rightarrow> options_object \<Rightarrow> request \<Rightarrow> response \<Rightarrow> world \<Rightarrow> step" where
  "rateLimit m opts req res w =
     (case over_limit m opts req (hits w) of
        (over, store) \<Rightarrow>
          (let w' = w\<lparr>hits := store\<rparr> in
           if \<not> over then Continue req res w'
           else
             (case defined_option opts ''handler'' of
                Some (Handler h) \<Rightarrow>
                  (case h req res of
                     CallsNext res' \<Rightarrow> Continue req res' w'
                   | Ends res' \<Rightarrow> Finish res' w'
                   | Neither \<Rightarrow> Stall w')
              | _ \<Rightarrow>
                  Finish (json (status res (rejection_status opts)) (rejection_message opts req))
                    w')))"

text \<open>
  \<open>authenticateClient({ clientsStore })\<close>: on success the resolved client is attached
  to the request, on failure the request ends with the error response.
\<close>

definition authenticateClient ::
  "modules \<Rightarrow> clients_store \<Rightarrow> request \<Rightarrow> response \<Rightarrow> world \<Rightarrow> step" where
  "authenticateClient m store req res w =
     (case authenticate m store req of
        Authenticated c \<Rightarrow> Continue (req\<lparr>client := Some c\<rparr>) res w
      | Rejected code b \<Rightarrow> Finish (json (status res code) b) w)"

subsection \<open>The route handler (lines 60 to 86)\<close>

datatype attempt = Returns | Throws thrown | NeverSettles

text \<open>
  \<open>await provider.revokeToken!(client, parseResult.data)\<close>: the non-null assertion is
  erased at run time, so calling an absent method throws a \<open>TypeError\<close>.
\<close>

definition call_revokeToken ::
  "OAuthServerProvider \<Rightarrow> client_information \<Rightarrow> revocation_request \<Rightarrow> world \<Rightarrow> attempt \<times> world" where
  "call_revokeToken provider c d w =
     (case revokeToken provider of
        None \<Rightarrow> (Throws (ThrownOther ''TypeError: provider.revokeToken is not a function''), w)
      | Some f \<Rightarrow>
          (case f c d of
             Resolves v \<Rightarrow> Returns
           | Rejects e \<Rightarrow> Throws e
           | Pending \<Rightarrow> NeverSettles,
           w\<lparr>revoked := revoked w @ [(c, d)]\<rparr>))"

text \<open>
  The body of the \<open>try\<close> block up to the call of the provider (lines 64 to 75). What
  follows the call, \<open>res.status(200).json({})\<close>, does not throw.
\<close>

definition try_block ::
  "modules \<Rightarrow> OAuthServerProvider \<Rightarrow> request \<Rightarrow> world \<Rightarrow> attempt \<times> world" where
  "try_block m provider req w =
     (case safeParse m (body req) of
        ParseFailure msg \<Rightarrow> (Throws (ThrownOAuth (OAuthError InvalidRequestError msg)), w)
      | ParseSuccess d \<Rightarrow>
          (case client req of
             None \<Rightarrow> (Throws (ThrownOAuth (OAuthError ServerError ''Internal Server Error'')), w)
           | Some c \<Rightarrow> call_revokeToken provider c d w))"

text \<open>The \<open>catch\<close> block (lines 77 to 85).\<close>

fun catch_block :: "response \<Rightarrow> thrown \<Rightarrow> response" where
  "catch_block res (ThrownOAuth e) =
     json (status res (if instanceof_ServerError e then 500 else 400)) (toResponseObject e)"
| "catch_block res (ThrownOther details) =
     json (status res 500) (toResponseObject (OAuthError ServerError ''Internal Server Error''))"

definition post_handler ::
  "modules \<Rightarrow> OAuthServerProvider \<Rightarrow> request \<Rightarrow> response \<Rightarrow> world \<Rightarrow> step" where
  "post_handler m provider req res w =
     (let res1 = setHeader res ''Cache-Control'' ''no-store'' in
      case try_block m provider req w of
        (Returns, w') \<Rightarrow> Finish (json (status res1 200) (JObject [])) w'
      | (Throws e, w') \<Rightarrow> Finish (catch_block res1 e) w'
      | (NeverSettles, w') \<Rightarrow> Stall w')"

text \<open>\<open>router.post("/", ...)\<close>: the route matches requests of method POST only.\<close>

definition post_route ::
  "modules \<Rightarrow> OAuthServerProvider \<Rightarrow> request \<Rightarrow> response \<Rightarrow> world \<Rightarrow> step" where
  "post_route m provider req res w =
     (if http_method req = ''POST'' then post_handler m provider req res w
      else Continue req res w)"

subsection \<open>The router and its construction\<close>

datatype stage =
  Cors
  | AllowedMethods "string list"
  | Urlencoded
  | RateLimit options_object
  | AuthenticateClient clients_store
  | PostRoute

fun name_of :: "stage \<Rightarrow> stage_name" where
  "name_of Cors = CorsStage"
| "name_of (AllowedMethods ms) = MethodGate"
| "name_of Urlencoded = BodyParser"
| "name_of (RateLimit opts) = RateLimitStage"
| "name_of (AuthenticateClient store) = AuthStage"
| "name_of PostRoute = BusinessStage"

text \<open>
  The route handler's \<open>provider\<close> is the shared object: the stage reads it as it is
  when the request arrives.
\<close>

fun run_stage :: "modules \<Rightarrow> stage \<Rightarrow> request \<Rightarrow> response \<Rightarrow> world \<Rightarrow> step" where
  "run_stage m Cors req res w = cors req res w"
| "run_stage m (AllowedMethods ms) req res w = allowedMethods ms req res w"
| "run_stage m Urlencoded req res w = urlencoded req res w"
| "run_stage m (RateLimit opts) req res w = rateLimit m opts req res w"
| "run_stage m (AuthenticateClient store) req res w = authenticateClient m store req res w"
| "run_stage m PostRoute req res w = post_route m (provider_object w) req res w"

datatype outcome =
  Responded response world
  | Unanswered world
  | PassedOn request response world

text \<open>
  Express runs the stack in order. A stage that ends the response stops the run; a
  request that no stage answers leaves the router.
\<close>

fun run :: "modules \<Rightarrow> stage list \<Rightarrow> request \<Rightarrow> response \<Rightarrow> world \<Rightarrow> outcome" where
  "run m [] req res w = PassedOn req res w"
| "run m (s # ss) req res w =
     (case run_stage m s req res (w\<lparr>entered := entered w @ [name_of s]\<rparr>) of
        Continue req' res' w' \<Rightarrow> run m ss req' res' w'
      | Finish res' w' \<Rightarrow> Responded res' w'
      | Stall w' \<Rightarrow> Unanswered w')"

fun world_of :: "outcome \<Rightarrow> world" where
  "world_of (Responded res w) = w"
| "world_of (Unanswered w) = w"
| "world_of (PassedOn req res w) = w"

record RevocationHandlerOptions =
  provider :: OAuthServerProvider
  rateLimit_config :: rateLimitConfig

datatype js_error = Error string

text \<open>
  \<open>revocationHandler\<close> (lines 24 to 89): the guard, then the router. \<open>provider\<close> of
  the options is the provider object as it is when \<open>revocationHandler\<close> is called;
  \<open>provider.clientsStore\<close> is read then (line 58).
\<close>

definition revocationHandler :: "RevocationHandlerOptions \<Rightarrow> js_error + stage list" where
  "revocationHandler options =
     (if revokeToken (provider options) = None
      then Inl (Error ''Auth provider does not support revoking tokens'')
      else Inr
        ([Cors, AllowedMethods [''POST''], Urlencoded]
         @ (if rateLimit_config options \<noteq> RateLimitFalse
            then [RateLimit (spread_config rateLimit_defaults (rateLimit_config options))]
            else [])
         @ [AuthenticateClient (clientsStore (provider options)), PostRoute]))"

text \<open>The router handling one request, with a fresh response.\<close>

definition handle :: "modules \<Rightarrow> stage list \<Rightarrow> request \<Rightarrow> world \<Rightarrow> outcome" where
  "handle m router req w = run m router req fresh_response w"

subsection \<open>Sample inputs\<close>

text \<open>
  Concrete inputs for the instances below: a provider that supports revocation through
  a given function, an authentication decision that looks the \<open>client_id\<close> field up
  in the clients store, a limiter that counts by address and reads its cap from the
  \<open>max\<close> option (5 when there is none), a request from one address, and a state in
  which nothing has happened yet and the provider object is a given one.
\<close>

abbreviation sample_store :: clients_store where
  "sample_store \<equiv> [''c1'' \<mapsto> \<lparr>client_id = ''c1''\<rparr>]"

abbreviation sample_provider ::
  "(client_information \<Rightarrow> revocation_request \<Rightarrow> settle) \<Rightarrow> OAuthServerProvider" where
  "sample_provider f \<equiv> \<lparr>clientsStore = sample_store, revokeToken = Some f\<rparr>"

abbreviation sample_modules :: modules where
  "sample_modules \<equiv>
     \<lparr>safeParse = OAuthTokenRevocationRequestSchema,
      authenticate = (\<lambda>store req.
        case map_of (body req) ''client_id'' of
          None \<Rightarrow> Rejected 400 (JObject [(''error'', JString ''invalid_client'')])
        | Some i \<Rightarrow>
            (case store i of
               None \<Rightarrow> Rejected 400 (JObject [(''error'', JString ''invalid_client'')])
             | Some c \<Rightarrow> Authenticated c)),
      over_limit = (\<lambda>opts req store.
        (case store (ip req) of
           None \<Rightarrow>
             ((case opts ''max'' of Some (Value (JNumber cap)) \<Rightarrow> cap | _ \<Rightarrow> 5) < 1,
              store(ip req \<mapsto> 1))
         | Some n \<Rightarrow>
             ((case opts ''max'' of Some (Value (JNumber cap)) \<Rightarrow> cap | _ \<Rightarrow> 5) < Suc n,
              store(ip req \<mapsto> Suc n))))\<rparr>"

abbreviation sample_request :: "string \<Rightarrow> form \<Rightarrow> request" where
  "sample_request meth b \<equiv> \<lparr>http_method = meth, ip = ''203.0.113.7'', body = b, client = None\<rparr>"

abbreviation quiet :: "OAuthServerProvider \<Rightarrow> world" where
  "quiet p \<equiv> \<lparr>hits = Map.empty, revoked = [], entered = [], provider_object = p\<rparr>"

section \<open>Auxiliary facts\<close>

lemmas response_ops = setHeader_def status_def json_def

lemmas stage_defs = cors_def allowedMethods_def urlencoded_def rateLimit_def
  authenticateClient_def post_route_def



lemmas router_defs = revocationHandler_def handle_def rateLimit_defaults_def spread_def
  fresh_response_def

text \<open>The stack that \<open>revocationHandler\<close> returns, when it returns one.\<close>

lemma revocationHandler_router:
  assumes "revocationHandler options = Inr router"
  shows "router =
    [Cors, AllowedMethods [''POST''], Urlencoded]
    @ (if rateLimit_config options \<noteq> RateLimitFalse
       then [RateLimit (spread_config rateLimit_defaults (rateLimit_config options))]
       else [])
    @ [AuthenticateClient (clientsStore (provider options)), PostRoute]"
  using assms by (simp add: revocationHandler_def split: if_splits)


lemma run_gate_POST:
  assumes "http_method req = ''POST''"
  shows "run m (Cors # AllowedMethods [''POST''] # Urlencoded # rest) req res w =
    run m rest req (setHeader res ''Access-Control-Allow-Origin'' ''*'')
      (w\<lparr>entered := entered w @ [CorsStage, MethodGate, BodyParser]\<rparr>)"
  using assms by (simp add: cors_def allowedMethods_def urlencoded_def)

lemma run_gate_not_POST:
  assumes "http_method req \<noteq> ''POST''"
  shows "run m (Cors # AllowedMethods [''POST''] # rest) req res w =
    (if http_method req = ''OPTIONS''
     then Responded (status (setHeader res ''Access-Control-Allow-Origin'' ''*'') 204)
            (w\<lparr>entered := entered w @ [CorsStage]\<rparr>)
     else Responded
            (json (status (setHeader res ''Access-Control-Allow-Origin'' ''*'') 405)
               (toResponseObject (OAuthError MethodNotAllowedError
                  (''The method '' @ http_method req @ '' is not allowed for this endpoint''))))
            (w\<lparr>entered := entered w @ [CorsStage, MethodGate]\<rparr>))"
  using assms by (simp add: cors_def allowedMethods_def)

lemma run_auth_post:
  assumes "http_method req = ''POST''"
  shows "run m [AuthenticateClient store, PostRoute] req res w =
    (case authenticate m store req of
       Rejected code b \<Rightarrow> Responded (json (status res code) b) (w\<lparr>entered := entered w @ [AuthStage]\<rparr>)
     | Authenticated c \<Rightarrow>
         (case post_handler m (provider_object w) (req\<lparr>client := Some c\<rparr>) res
                 (w\<lparr>entered := entered w @ [AuthStage, BusinessStage]\<rparr>) of
            Continue req' res' w' \<Rightarrow> PassedOn req' res' w'
          | Finish res' w' \<Rightarrow> Responded res' w'
          | Stall w' \<Rightarrow> Unanswered w'))"
  using assms
  by (simp add: authenticateClient_def post_route_def split: auth_result.splits step.splits)

text \<open>What the route handler leaves of the state outside the request.\<close>

lemma try_block_world:
  "try_block m p req w = (a, w') \<Longrightarrow>
     hits w' = hits w \<and> entered w' = entered w \<and> provider_object w' = provider_object w"
  by (auto simp: try_block_def call_revokeToken_def split: parse_result.splits option.splits)


text \<open>A rejection of the provider's promise is what the \<open>try\<close> block throws.\<close>

lemma provider_failure_thrown:
  assumes "safeParse m (body req) = ParseSuccess d" and "client req = Some c"
    and "revokeToken p = Some f" and "f c d = Rejects e"
  shows "try_block m p req w = (Throws e, w\<lparr>revoked := revoked w @ [(c, d)]\<rparr>)"
  using assms by (simp add: try_block_def call_revokeToken_def)

lemma post_handler_invalid:
  assumes "safeParse m (body req) = ParseFailure msg"
  shows "post_handler m p req res w =
    Finish
      (json (status (setHeader res ''Cache-Control'' ''no-store'') 400)
         (toResponseObject (OAuthError InvalidRequestError msg)))
      w"
  using assms by (simp add: post_handler_def try_block_def)




text \<open>A router without a rate-limit stage never enters one and leaves the store alone.\<close>

lemma post_handler_world:
  "hits (world_of (case post_handler m p req res w of
       Continue req' res' w' \<Rightarrow> PassedOn req' res' w'
     | Finish res' w' \<Rightarrow> Responded res' w'
     | Stall w' \<Rightarrow> Unanswered w')) = hits w
   \<and> entered (world_of (case post_handler m p req res w of
       Continue req' res' w' \<Rightarrow> PassedOn req' res' w'
     | Finish res' w' \<Rightarrow> Responded res' w'
     | Stall w' \<Rightarrow> Unanswered w')) = entered w"
  by (cases "try_block m p req w")
    (auto simp: post_handler_def Let_def dest: try_block_world split: attempt.splits)

lemma unlimited_world:
  "hits (world_of (run m [Cors, AllowedMethods [''POST''], Urlencoded,
        AuthenticateClient store, PostRoute] req res w)) = hits w
   \<and> (\<exists>t. entered (world_of (run m [Cors, AllowedMethods [''POST''], Urlencoded,
        AuthenticateClient store, PostRoute] req res w)) = entered w @ t
        \<and> RateLimitStage \<notin> set t)"
proof (cases "http_method req = ''POST''")
  case True
  show ?thesis
    by (simp only: run_gate_POST [OF True] run_auth_post [OF True])
      (simp add: post_handler_world split: auth_result.splits)
next
  case False
  show ?thesis
    by (simp only: run_gate_not_POST [OF False]) simp
qed

section \<open>The claims\<close>

subsection \<open>The success path\<close>



subsection \<open>Errors thrown in the route handler\<close>

text \<open>
  C2. Whenever the \<open>try\<close> block of the route handler throws a protocol error (an
  \<open>OAuthError\<close> of any kind, from the validation, the missing-client check or the
  provider), the handler answers with status 500 when the kind is \<open>ServerError\<close> and
  with status 400 for every other kind, and the body is what the error's
  \<open>toResponseObject\<close> renders.
\<close>

theorem protocol_error_status_and_body:
  assumes "try_block m p req w = (Throws (ThrownOAuth (OAuthError kind description)), w')"
  shows "post_handler m p req res w =
    Finish
      (json (status (setHeader res ''Cache-Control'' ''no-store'')
               (if kind = ServerError then 500 else 400))
         (toResponseObject (OAuthError kind description)))
      w'"
  using assms by (simp add: post_handler_def)

theorem protocol_error_status_and_body_witness:
  "try_block sample_modules
     (sample_provider (\<lambda>c d. Rejects
        (ThrownOAuth (OAuthError (OtherOAuthError ''unsupported_token_type'') ''no such type''))))
     ((sample_request ''POST'' [(''token'', ''abc'')])\<lparr>client := Some \<lparr>client_id = ''c1''\<rparr>\<rparr>)
     (quiet (sample_provider (\<lambda>c d. Resolves None)))
   = (Throws (ThrownOAuth (OAuthError (OtherOAuthError ''unsupported_token_type'') ''no such type'')),
      (quiet (sample_provider (\<lambda>c d. Resolves None)))
        \<lparr>revoked := [(\<lparr>client_id = ''c1''\<rparr>, \<lparr>token = ''abc'', token_type_hint = None\<rparr>)]\<rparr>)
   \<and> post_handler sample_modules
     (sample_provider (\<lambda>c d. Rejects
        (ThrownOAuth (OAuthError (OtherOAuthError ''unsupported_token_type'') ''no such type''))))
     ((sample_request ''POST'' [(''token'', ''abc'')])\<lparr>client := Some \<lparr>client_id = ''c1''\<rparr>\<rparr>)
     fresh_response (quiet (sample_provider (\<lambda>c d. Resolves None)))
   = Finish
       \<lparr>statusCode = 400,
        headers = [''Cache-Control'' \<mapsto> ''no-store''],
        sent = Some (JObject [(''error'', JString ''unsupported_token_type''),
                              (''error_description'', JString ''no such type'')])\<rparr>
       ((quiet (sample_provider (\<lambda>c d. Resolves None)))
          \<lparr>revoked := [(\<lparr>client_id = ''c1''\<rparr>, \<lparr>token = ''abc'', token_type_hint = None\<rparr>)]\<rparr>)"
proof -
  let ?p = "sample_provider (\<lambda>c d. Rejects
    (ThrownOAuth (OAuthError (OtherOAuthError ''unsupported_token_type'') ''no such type'')))"
  let ?req = "(sample_request ''POST'' [(''token'', ''abc'')])\<lparr>client := Some \<lparr>client_id = ''c1''\<rparr>\<rparr>"
  let ?w = "quiet (sample_provider (\<lambda>c d. Resolves None))"
  have thrown: "try_block sample_modules ?p ?req ?w
      = (Throws (ThrownOAuth (OAuthError (OtherOAuthError ''unsupported_token_type'') ''no such type'')),
         ?w\<lparr>revoked := [(\<lparr>client_id = ''c1''\<rparr>, \<lparr>token = ''abc'', token_type_hint = None\<rparr>)]\<rparr>)"
    by (simp add: try_block_def call_revokeToken_def OAuthTokenRevocationRequestSchema_def)
  show ?thesis
    using thrown protocol_error_status_and_body [OF thrown, of fresh_response]
    by (simp add: response_ops fresh_response_def)
qed

text \<open>
  C3. Whenever the \<open>try\<close> block throws anything that is not a protocol error, an
  internal failure of the provider's \<open>revokeToken\<close> included, the handler answers with
  status 500 and the body
  \<open>{"error":"server_error","error_description":"Internal Server Error"}\<close>. The answer
  is the same for every such failure: its details are not part of it.
\<close>

theorem other_failure_generic_500:
  assumes "try_block m p req w = (Throws (ThrownOther details), w')"
  shows "post_handler m p req res w =
    Finish
      (json (status (setHeader res ''Cache-Control'' ''no-store'') 500)
         (JObject [(''error'', JString ''server_error''),
                   (''error_description'', JString ''Internal Server Error'')]))
      w'"
  using assms by (simp add: post_handler_def)

theorem other_failure_generic_500_witness:
  "try_block sample_modules
     (sample_provider (\<lambda>c d. Rejects (ThrownOther ''ECONNREFUSED 10.0.0.5:5432'')))
     ((sample_request ''POST'' [(''token'', ''abc'')])\<lparr>client := Some \<lparr>client_id = ''c1''\<rparr>\<rparr>)
     (quiet (sample_provider (\<lambda>c d. Resolves None)))
   = (Throws (ThrownOther ''ECONNREFUSED 10.0.0.5:5432''),
      (quiet (sample_provider (\<lambda>c d. Resolves None)))
        \<lparr>revoked := [(\<lparr>client_id = ''c1''\<rparr>, \<lparr>token = ''abc'', token_type_hint = None\<rparr>)]\<rparr>)
   \<and> post_handler sample_modules
     (sample_provider (\<lambda>c d. Rejects (ThrownOther ''ECONNREFUSED 10.0.0.5:5432'')))
     ((sample_request ''POST'' [(''token'', ''abc'')])\<lparr>client := Some \<lparr>client_id = ''c1''\<rparr>\<rparr>)
     fresh_response (quiet (sample_provider (\<lambda>c d. Resolves None)))
   = Finish
       \<lparr>statusCode = 500,
        headers = [''Cache-Control'' \<mapsto> ''no-store''],
        sent = Some (JObject [(''error'', JString ''server_error''),
                              (''error_description'', JString ''Internal Server Error'')])\<rparr>
       ((quiet (sample_provider (\<lambda>c d. Resolves None)))
          \<lparr>revoked := [(\<lparr>client_id = ''c1''\<rparr>, \<lparr>token = ''abc'', token_type_hint = None\<rparr>)]\<rparr>)"
proof -
  let ?p = "sample_provider (\<lambda>c d. Rejects (ThrownOther ''ECONNREFUSED 10.0.0.5:5432''))"
  let ?req = "(sample_request ''POST'' [(''token'', ''abc'')])\<lparr>client := Some \<lparr>client_id = ''c1''\<rparr>\<rparr>"
  let ?w = "quiet (sample_provider (\<lambda>c d. Resolves None))"
  have thrown: "try_block sample_modules ?p ?req ?w
      = (Throws (ThrownOther ''ECONNREFUSED 10.0.0.5:5432''),
         ?w\<lparr>revoked := [(\<lparr>client_id = ''c1''\<rparr>, \<lparr>token = ''abc'', token_type_hint = None\<rparr>)]\<rparr>)"
    by (simp add: try_block_def call_revokeToken_def OAuthTokenRevocationRequestSchema_def)
  show ?thesis
    using thrown other_failure_generic_500 [OF thrown, of fresh_response]
    by (simp add: response_ops fresh_response_def)
qed

text \<open>
  C4. When the request body fails validation against the revocation request schema,
  the route handler answers with status 400 and the rendered \<open>InvalidRequestError\<close>
  carrying the validation message, and it leaves the state as it found it: the provider
  is not invoked. Through the whole router, too, a request whose body fails validation
  never reaches \<open>revokeToken\<close>, whichever stage answers it.
\<close>

theorem invalid_body_400_no_revoke:
  assumes built: "revocationHandler options = Inr router"
    and invalid: "safeParse m (body req) = ParseFailure msg"
  shows "post_handler m (provider options) req res w =
      Finish
        (json (status (setHeader res ''Cache-Control'' ''no-store'') 400)
           (toResponseObject (OAuthError InvalidRequestError msg)))
        w
    \<and> revoked (world_of (handle m router req w)) = revoked w"
proof
  show "post_handler m (provider options) req res w =
      Finish
        (json (status (setHeader res ''Cache-Control'' ''no-store'') 400)
           (toResponseObject (OAuthError InvalidRequestError msg)))
        w"
    by (rule post_handler_invalid [OF invalid])
next
  have rejected: "post_handler m p (req\<lparr>client := x\<rparr>) res' w' =
      Finish
        (json (status (setHeader res' ''Cache-Control'' ''no-store'') 400)
           (toResponseObject (OAuthError InvalidRequestError msg)))
        w'" for p x res' w'
    using invalid by (simp add: post_handler_invalid)
  show "revoked (world_of (handle m router req w)) = revoked w"
    by (cases "rateLimit_config options = RateLimitFalse")
      (simp_all add: revocationHandler_router [OF built] handle_def stage_defs Let_def rejected
        split: auth_result.splits prod.splits option.splits option_value.splits
          handler_step.splits)
qed

theorem invalid_body_400_no_revoke_witness:
  "safeParse sample_modules (body (sample_request ''POST'' [(''client_id'', ''c1'')]))
     = ParseFailure ''token: Required''
   \<and> (case revocationHandler \<lparr>provider = sample_provider (\<lambda>c d. Resolves None),
       rateLimit_config = RateLimitUndefined\<rparr> of
      Inl e \<Rightarrow> False
    | Inr router \<Rightarrow>
        post_handler sample_modules (sample_provider (\<lambda>c d. Resolves None))
          (sample_request ''POST'' [(''client_id'', ''c1'')]) fresh_response
          (quiet (sample_provider (\<lambda>c d. Resolves None)))
        = Finish
            \<lparr>statusCode = 400,
             headers = [''Cache-Control'' \<mapsto> ''no-store''],
             sent = Some (JObject [(''error'', JString ''invalid_request''),
                                   (''error_description'', JString ''token: Required'')])\<rparr>
            (quiet (sample_provider (\<lambda>c d. Resolves None)))
        \<and> revoked (world_of (handle sample_modules router
              (sample_request ''POST'' [(''client_id'', ''c1'')])
              (quiet (sample_provider (\<lambda>c d. Resolves None))))) = [])"
proof -
  let ?options = "\<lparr>provider = sample_provider (\<lambda>c d. Resolves None),
       rateLimit_config = RateLimitUndefined\<rparr>"
  let ?router = "[Cors, AllowedMethods [''POST''], Urlencoded, RateLimit rateLimit_defaults,
    AuthenticateClient sample_store, PostRoute]"
  let ?req = "sample_request ''POST'' [(''client_id'', ''c1'')]"
  let ?w = "quiet (sample_provider (\<lambda>c d. Resolves None))"
  have built: "revocationHandler ?options = Inr ?router"
    by (simp add: revocationHandler_def)
  have invalid: "safeParse sample_modules (body ?req) = ParseFailure ''token: Required''"
    by (simp add: OAuthTokenRevocationRequestSchema_def)
  show ?thesis
    using invalid invalid_body_400_no_revoke [OF built invalid, of fresh_response ?w]
    by (simp add: built response_ops fresh_response_def)
qed

subsection \<open>The method gate\<close>

text \<open>
  The cross-origin stage stands before the method gate, and it answers a preflight
  request itself: a request of method \<open>OPTIONS\<close> is not a POST request, and its
  response has status 204, not 405.
\<close>

theorem non_post_stops_at_gate_counterexample:
  "http_method (sample_request ''OPTIONS'' []) \<noteq> ''POST''
   \<and> (case revocationHandler \<lparr>provider = sample_provider (\<lambda>c d. Resolves None),
       rateLimit_config = RateLimitUndefined\<rparr> of
      Inl e \<Rightarrow> False
    | Inr router \<Rightarrow>
        handle sample_modules router (sample_request ''OPTIONS'' [])
          (quiet (sample_provider (\<lambda>c d. Resolves None)))
        = Responded
            \<lparr>statusCode = 204,
             headers = [''Access-Control-Allow-Origin'' \<mapsto> ''*''],
             sent = None\<rparr>
            ((quiet (sample_provider (\<lambda>c d. Resolves None)))\<lparr>entered := [CorsStage]\<rparr>))"
  by (simp add: router_defs stage_defs response_ops)

text \<open>
  C5, amended. A request whose method is neither POST nor \<open>OPTIONS\<close> is answered by
  the method gate with status 405 and a method-not-allowed error; a request of method
  \<open>OPTIONS\<close> is answered by the cross-origin stage with status 204. In both cases the
  run ends there: the rate-limit stage, the authentication stage and the route handler
  are not entered, the rate limiter's store is unchanged and the provider's
  \<open>revokeToken\<close> is not invoked.
\<close>

theorem non_post_stops_at_gate:
  assumes built: "revocationHandler options = Inr router"
    and not_post: "http_method req \<noteq> ''POST''"
  shows "handle m router req w =
    (if http_method req = ''OPTIONS''
     then Responded
            (status (setHeader fresh_response ''Access-Control-Allow-Origin'' ''*'') 204)
            (w\<lparr>entered := entered w @ [CorsStage]\<rparr>)
     else Responded
            (json (status (setHeader fresh_response ''Access-Control-Allow-Origin'' ''*'') 405)
               (toResponseObject (OAuthError MethodNotAllowedError
                  (''The method '' @ http_method req @ '' is not allowed for this endpoint''))))
            (w\<lparr>entered := entered w @ [CorsStage, MethodGate]\<rparr>))"
proof -
  obtain rest where "router = Cors # AllowedMethods [''POST''] # rest"
    using revocationHandler_router [OF built] by simp
  then show ?thesis
    by (simp only: handle_def run_gate_not_POST [OF not_post])
qed

theorem non_post_stops_at_gate_witness:
  "http_method (sample_request ''GET'' []) \<noteq> ''POST''
   \<and> (case revocationHandler \<lparr>provider = sample_provider (\<lambda>c d. Resolves None),
       rateLimit_config = RateLimitUndefined\<rparr> of
      Inl e \<Rightarrow> False
    | Inr router \<Rightarrow>
        handle sample_modules router (sample_request ''GET'' [])
          (quiet (sample_provider (\<lambda>c d. Resolves None)))
        = Responded
            \<lparr>statusCode = 405,
             headers = [''Access-Control-Allow-Origin'' \<mapsto> ''*''],
             sent = Some (JObject [(''error'', JString ''method_not_allowed''),
               (''error_description'',
                JString ''The method GET is not allowed for this endpoint'')])\<rparr>
            ((quiet (sample_provider (\<lambda>c d. Resolves None)))\<lparr>entered := [CorsStage, MethodGate]\<rparr>))"
proof -
  let ?options = "\<lparr>provider = sample_provider (\<lambda>c d. Resolves None),
       rateLimit_config = RateLimitUndefined\<rparr>"
  let ?router = "[Cors, AllowedMethods [''POST''], Urlencoded, RateLimit rateLimit_defaults,
    AuthenticateClient sample_store, PostRoute]"
  let ?w = "quiet (sample_provider (\<lambda>c d. Resolves None))"
  have built: "revocationHandler ?options = Inr ?router"
    by (simp add: revocationHandler_def)
  have not_post: "http_method (sample_request ''GET'' []) \<noteq> ''POST''"
    by simp
  show ?thesis
    using non_post_stops_at_gate [OF built not_post, of sample_modules ?w]
    by (simp add: built response_ops fresh_response_def)
qed

subsection \<open>The rate limiter\<close>

text \<open>
  C6. For a provider that supports revocation: with \<open>rateLimit: false\<close> the router
  has no rate-limit stage, and no request through it enters one or touches the rate
  limiter's store; with the field absent the rate limiter is installed with the defaults
  (a window of 15 minutes, that is 900000 ms, at most 50 requests, standard headers on,
  legacy headers off, the \<open>TooManyRequestsError\<close> message); with an options object it
  is installed with an object that holds, under every key of the caller's object, what
  the caller's object holds there (whatever the key, and \<open>undefined\<close> included), and
  under every other key the default.
\<close>

theorem rateLimit_false_or_merged:
  assumes supported: "revokeToken (provider options) = Some f"
  shows "(rateLimit_config options = RateLimitFalse \<longrightarrow>
       revocationHandler options =
         Inr [Cors, AllowedMethods [''POST''], Urlencoded,
              AuthenticateClient (clientsStore (provider options)), PostRoute]
       \<and> (\<forall>m router req w. revocationHandler options = Inr router \<longrightarrow>
            hits (world_of (handle m router req w)) = hits w
            \<and> (\<exists>t. entered (world_of (handle m router req w)) = entered w @ t
                 \<and> RateLimitStage \<notin> set t)))
    \<and> (rateLimit_config options = RateLimitUndefined \<longrightarrow>
       revocationHandler options =
         Inr [Cors, AllowedMethods [''POST''], Urlencoded,
              RateLimit
                [''windowMs'' \<mapsto> Value (JNumber 900000),
                 ''max'' \<mapsto> Value (JNumber 50),
                 ''standardHeaders'' \<mapsto> Value (JBool True),
                 ''legacyHeaders'' \<mapsto> Value (JBool False),
                 ''message'' \<mapsto> Value (toResponseObject (OAuthError TooManyRequestsError
                   ''You have exceeded the rate limit for token revocation requests''))],
              AuthenticateClient (clientsStore (provider options)), PostRoute])
    \<and> (\<forall>c. rateLimit_config options = RateLimitObject c \<longrightarrow>
       (\<exists>installed.
          revocationHandler options =
            Inr [Cors, AllowedMethods [''POST''], Urlencoded, RateLimit installed,
                 AuthenticateClient (clientsStore (provider options)), PostRoute]
          \<and> (\<forall>k. installed k =
               (case c k of
                  Some v \<Rightarrow> Some v
                | None \<Rightarrow>
                    [''windowMs'' \<mapsto> Value (JNumber 900000),
                     ''max'' \<mapsto> Value (JNumber 50),
                     ''standardHeaders'' \<mapsto> Value (JBool True),
                     ''legacyHeaders'' \<mapsto> Value (JBool False),
                     ''message'' \<mapsto> Value (toResponseObject (OAuthError TooManyRequestsError
                       ''You have exceeded the rate limit for token revocation requests''))]
                    k))))"
proof (intro conjI impI allI)
  assume off: "rateLimit_config options = RateLimitFalse"
  then show built: "revocationHandler options =
      Inr [Cors, AllowedMethods [''POST''], Urlencoded,
           AuthenticateClient (clientsStore (provider options)), PostRoute]"
    using supported by (simp add: revocationHandler_def)
  fix m router req w
  assume "revocationHandler options = Inr router"
  with built have router: "router = [Cors, AllowedMethods [''POST''], Urlencoded,
           AuthenticateClient (clientsStore (provider options)), PostRoute]"
    by simp
  show "hits (world_of (handle m router req w)) = hits w"
    unfolding handle_def router using unlimited_world by blast
  show "\<exists>t. entered (world_of (handle m router req w)) = entered w @ t
      \<and> RateLimitStage \<notin> set t"
    unfolding handle_def router using unlimited_world by blast
next
  assume "rateLimit_config options = RateLimitUndefined"
  then show "revocationHandler options =
         Inr [Cors, AllowedMethods [''POST''], Urlencoded,
              RateLimit
                [''windowMs'' \<mapsto> Value (JNumber 900000),
                 ''max'' \<mapsto> Value (JNumber 50),
                 ''standardHeaders'' \<mapsto> Value (JBool True),
                 ''legacyHeaders'' \<mapsto> Value (JBool False),
                 ''message'' \<mapsto> Value (toResponseObject (OAuthError TooManyRequestsError
                   ''You have exceeded the rate limit for token revocation requests''))],
              AuthenticateClient (clientsStore (provider options)), PostRoute]"
    using supported by (simp add: revocationHandler_def rateLimit_defaults_def)
next
  fix c
  assume obj: "rateLimit_config options = RateLimitObject c"
  let ?installed = "spread rateLimit_defaults c"
  have "revocationHandler options =
      Inr [Cors, AllowedMethods [''POST''], Urlencoded, RateLimit ?installed,
           AuthenticateClient (clientsStore (provider options)), PostRoute]"
    using supported obj by (simp add: revocationHandler_def)
  moreover have "?installed k =
      (case c k of
         Some v \<Rightarrow> Some v
       | None \<Rightarrow>
           [''windowMs'' \<mapsto> Value (JNumber 900000),
            ''max'' \<mapsto> Value (JNumber 50),
            ''standardHeaders'' \<mapsto> Value (JBool True),
            ''legacyHeaders'' \<mapsto> Value (JBool False),
            ''message'' \<mapsto> Value (toResponseObject (OAuthError TooManyRequestsError
              ''You have exceeded the rate limit for token revocation requests''))]
           k)" for k
    by (simp add: spread_def rateLimit_defaults_def map_add_def split: option.splits)
  ultimately show "\<exists>installed.
      revocationHandler options =
        Inr [Cors, AllowedMethods [''POST''], Urlencoded, RateLimit installed,
             AuthenticateClient (clientsStore (provider options)), PostRoute]
      \<and> (\<forall>k. installed k =
           (case c k of
              Some v \<Rightarrow> Some v
            | None \<Rightarrow>
                [''windowMs'' \<mapsto> Value (JNumber 900000),
                 ''max'' \<mapsto> Value (JNumber 50),
                 ''standardHeaders'' \<mapsto> Value (JBool True),
                 ''legacyHeaders'' \<mapsto> Value (JBool False),
                 ''message'' \<mapsto> Value (toResponseObject (OAuthError TooManyRequestsError
                   ''You have exceeded the rate limit for token revocation requests''))]
                k))"
    by blast
qed

theorem rateLimit_false_or_merged_witness:
  "revocationHandler
     \<lparr>provider = sample_provider (\<lambda>c d. Resolves None), rateLimit_config = RateLimitFalse\<rparr>
   = Inr [Cors, AllowedMethods [''POST''], Urlencoded,
          AuthenticateClient sample_store, PostRoute]
   \<and> (\<exists>installed.
        revocationHandler
          \<lparr>provider = sample_provider (\<lambda>c d. Resolves None),
           rateLimit_config = RateLimitObject
             [''max'' \<mapsto> Undefined, ''limit'' \<mapsto> Value (JNumber 3),
              ''legacyHeaders'' \<mapsto> Value (JBool True)]\<rparr>
        = Inr [Cors, AllowedMethods [''POST''], Urlencoded, RateLimit installed,
               AuthenticateClient sample_store, PostRoute]
        \<and> installed ''max'' = Some Undefined
        \<and> installed ''limit'' = Some (Value (JNumber 3))
        \<and> installed ''legacyHeaders'' = Some (Value (JBool True))
        \<and> installed ''windowMs'' = Some (Value (JNumber 900000))
        \<and> installed ''standardHeaders'' = Some (Value (JBool True))
        \<and> installed ''handler'' = None)"
proof -
  let ?f = "\<lambda>(c :: client_information) (d :: revocation_request). Resolves None"
  let ?off = "\<lparr>provider = sample_provider ?f, rateLimit_config = RateLimitFalse\<rparr>"
  let ?c = "[''max'' \<mapsto> Undefined, ''limit'' \<mapsto> Value (JNumber 3),
    ''legacyHeaders'' \<mapsto> Value (JBool True)]"
  let ?on = "\<lparr>provider = sample_provider ?f, rateLimit_config = RateLimitObject ?c\<rparr>"
  have off: "revokeToken (provider ?off) = Some ?f" and on: "revokeToken (provider ?on) = Some ?f"
    by simp_all
  have first: "revocationHandler ?off =
      Inr [Cors, AllowedMethods [''POST''], Urlencoded,
           AuthenticateClient sample_store, PostRoute]"
    using rateLimit_false_or_merged [OF off] by simp
  obtain installed where installed:
    "revocationHandler ?on =
       Inr [Cors, AllowedMethods [''POST''], Urlencoded, RateLimit installed,
            AuthenticateClient sample_store, PostRoute]"
    "\<And>k. installed k =
       (case ?c k of
          Some v \<Rightarrow> Some v
        | None \<Rightarrow>
            [''windowMs'' \<mapsto> Value (JNumber 900000),
             ''max'' \<mapsto> Value (JNumber 50),
             ''standardHeaders'' \<mapsto> Value (JBool True),
             ''legacyHeaders'' \<mapsto> Value (JBool False),
             ''message'' \<mapsto> Value (toResponseObject (OAuthError TooManyRequestsError
               ''You have exceeded the rate limit for token revocation requests''))]
            k)"
    using rateLimit_false_or_merged [OF on] by auto
  have "installed ''max'' = Some Undefined"
    and "installed ''limit'' = Some (Value (JNumber 3))"
    and "installed ''legacyHeaders'' = Some (Value (JBool True))"
    and "installed ''windowMs'' = Some (Value (JNumber 900000))"
    and "installed ''standardHeaders'' = Some (Value (JBool True))"
    and "installed ''handler'' = None"
    by (simp_all add: installed(2))
  with first installed(1) show ?thesis
    by blast
qed




subsection \<open>Construction\<close>

text \<open>
  C8. With a provider that has no \<open>revokeToken\<close>, \<open>revocationHandler\<close> throws the
  error "Auth provider does not support revoking tokens" and returns no router: there
  is no request handler that could turn the failure into a response.
\<close>

theorem unsupported_provider_throws:
  assumes "revokeToken (provider options) = None"
  shows "revocationHandler options = Inl (Error ''Auth provider does not support revoking tokens'')"
  using assms by (simp add: revocationHandler_def)

theorem unsupported_provider_throws_witness:
  "revokeToken (provider
     \<lparr>provider = \<lparr>clientsStore = sample_store, revokeToken = None\<rparr>,
      rateLimit_config = RateLimitUndefined\<rparr>) = None
   \<and> revocationHandler
     \<lparr>provider = \<lparr>clientsStore = sample_store, revokeToken = None\<rparr>,
      rateLimit_config = RateLimitUndefined\<rparr>
   = Inl (Error ''Auth provider does not support revoking tokens'')"
proof -
  let ?options = "\<lparr>provider = \<lparr>clientsStore = sample_store, revokeToken = None\<rparr>,
    rateLimit_config = RateLimitUndefined\<rparr>"
  have absent: "revokeToken (provider ?options) = None"
    by simp
  show ?thesis
    using absent unsupported_provider_throws [OF absent]
    by simp
qed




subsection \<open>The missing-client check\<close>




end
